theory Spec2Isabelle
  imports Complex_Main
begin

section \<open>Types (types.ts)\<close>

text \<open>
  \<^verbatim>\<open>export type CellState = boolean;\<close> A grid is a \<^verbatim>\<open>CellState[]\<close>, written here as a
  list of booleans in index order.
\<close>

type_synonym CellState = bool

definition GRID_SIZE :: nat where
  "GRID_SIZE = 3"

definition TOTAL_CELLS :: nat where
  "TOTAL_CELLS = GRID_SIZE * GRID_SIZE"

text \<open>
  \<^verbatim>\<open>interface Level { id: string; name: string; initialState: CellState[] }\<close>. The
  field \<^verbatim>\<open>id\<close> is written \<open>id'\<close> (HOL has a constant of that name). The record is
  polymorphic in the types of \<^verbatim>\<open>name\<close> and \<^verbatim>\<open>initialState\<close>: the competition
  controller reads levels at the declared types, while the import path builds levels from
  values typed \<^verbatim>\<open>any\<close>, whose fields hold whatever the document had.
\<close>

record ('n, 'g) Level =
  id' :: string
  name :: 'n
  initialState :: 'g

type_synonym TypedLevel = "(string, CellState list) Level"

text \<open>
  \<^verbatim>\<open>interface GameStats { timeSeconds: number; steps: number }\<close>. Both fields only ever
  hold integers (far below 2^53, where JavaScript's arithmetic on them is exact).
\<close>

record GameStats =
  timeSeconds :: int
  steps :: int

text \<open>\<^verbatim>\<open>interface LevelRecord\<close>; its field \<^verbatim>\<open>name\<close> is written \<open>name'\<close>.\<close>

record LevelRecord =
  levelId :: string
  name' :: string
  stats :: GameStats

datatype GameStatus = SETUP | IDLE | PLAYING | LEVEL_COMPLETE | ALL_COMPLETE

section \<open>Grid engine (utils/gameLogic.ts)\<close>

definition createEmptyGrid :: "CellState list" where
  "createEmptyGrid = replicate TOTAL_CELLS False"

text \<open>
  The statement \<^verbatim>\<open>newGrid[k] = !newGrid[k]\<close> on a JavaScript array. In range it inverts
  the cell. Out of range the read gives \<^verbatim>\<open>undefined\<close>, whose negation is \<^verbatim>\<open>true\<close>, and
  the write extends the array up to index k; the slots that JavaScript leaves empty in
  between are written \<open>False\<close> here, which is how \<^verbatim>\<open>!\<close> reads them (a list cannot
  show that \<^verbatim>\<open>every\<close> would skip them). The controller passes only indices of the grid
  it renders, where this branch is not taken.
\<close>

definition flipCell :: "CellState list \<Rightarrow> nat \<Rightarrow> CellState list" where
  "flipCell g k =
     (if k < length g then g[k := \<not> g ! k]
      else g @ replicate (k - length g) False @ [True])"

text \<open>
  \<^verbatim>\<open>toggleGridCell(grid, index)\<close>: the copy \<^verbatim>\<open>[...grid]\<close> is the value \<open>grid\<close> itself,
  and the five guarded assignments follow in the order of the source (self, up, down,
  left, right). The index is a natural number, as the caller takes it from enumerating
  the grid; \<^verbatim>\<open>Math.floor(index / GRID_SIZE)\<close> is then \<open>index div GRID_SIZE\<close>.
\<close>

definition toggleGridCell :: "CellState list \<Rightarrow> nat \<Rightarrow> CellState list" where
  "toggleGridCell grid index =
     (let row = index div GRID_SIZE;
          col = index mod GRID_SIZE;
          g0 = flipCell grid index;
          g1 = (if row > 0 then flipCell g0 ((row - 1) * GRID_SIZE + col) else g0);
          g2 = (if row < GRID_SIZE - 1 then flipCell g1 ((row + 1) * GRID_SIZE + col) else g1);
          g3 = (if col > 0 then flipCell g2 (row * GRID_SIZE + (col - 1)) else g2);
          g4 = (if col < GRID_SIZE - 1 then flipCell g3 (row * GRID_SIZE + (col + 1)) else g3)
      in g4)"

text \<open>\<^verbatim>\<open>isLevelSolved\<close>: every cell is \<^verbatim>\<open>true\<close>.\<close>

definition isLevelSolved :: "CellState list \<Rightarrow> bool" where
  "isLevelSolved grid = list_all (\<lambda>cell. cell = True) grid"

subsection \<open>The plus shape, in the words of the specification\<close>

text \<open>
  Index i lies in row \<open>i div 3\<close> and column \<open>i mod 3\<close>. Two cells are orthogonal
  neighbours when they share a row and their columns differ by one, or share a column and
  their rows differ by one; diagonal neighbours differ by one in both.
\<close>

definition cell_row :: "nat \<Rightarrow> nat" where
  "cell_row i = i div 3"

definition cell_col :: "nat \<Rightarrow> nat" where
  "cell_col i = i mod 3"

definition adjacent :: "nat \<Rightarrow> nat \<Rightarrow> bool" where
  "adjacent a b = (a = b + 1 \<or> b = a + 1)"

definition orthogonal_neighbour :: "nat \<Rightarrow> nat \<Rightarrow> bool" where
  "orthogonal_neighbour i j =
     ((cell_row i = cell_row j \<and> adjacent (cell_col i) (cell_col j)) \<or>
      (cell_col i = cell_col j \<and> adjacent (cell_row i) (cell_row j)))"

definition diagonal_neighbour :: "nat \<Rightarrow> nat \<Rightarrow> bool" where
  "diagonal_neighbour i j =
     (adjacent (cell_row i) (cell_row j) \<and> adjacent (cell_col i) (cell_col j))"

text \<open>The cells of a 3x3 grid whose value differs between two grids, counted.\<close>

definition changed_cells :: "CellState list \<Rightarrow> CellState list \<Rightarrow> nat" where
  "changed_cells g h = length (filter (\<lambda>j. g ! j \<noteq> h ! j) [0..<9])"

definition is_corner :: "nat \<Rightarrow> bool" where
  "is_corner i = (i = 0 \<or> i = 2 \<or> i = 6 \<or> i = 8)"

definition is_interior :: "nat \<Rightarrow> bool" where
  "is_interior i = (i = 4)"

section \<open>Competition run controller (the App component)\<close>

text \<open>
  A JavaScript exception that leaves a handler. The only one these handlers can raise is
  the \<^verbatim>\<open>TypeError\<close> of reading a property of \<^verbatim>\<open>undefined\<close> or \<^verbatim>\<open>null\<close>.
\<close>

datatype js_error = TypeError

text \<open>
  What the callback given to \<^verbatim>\<open>setTimeout\<close> in \<^verbatim>\<open>handleLevelComplete\<close> closes over: the
  \<^verbatim>\<open>currentLevelIdx\<close> and the \<^verbatim>\<open>levels\<close> of the render in which the level was completed
  (\<^verbatim>\<open>loadLevel\<close> of that render reads the same \<^verbatim>\<open>levels\<close>).
\<close>

record AdvanceClosure =
  closedLevelIdx :: nat
  closedLevels :: "TypedLevel list"

text \<open>
  The state of the component: its \<^verbatim>\<open>useState\<close> cells, the ref \<^verbatim>\<open>timerIntervalRef\<close>, and
  the one-shot timers that have been scheduled and have not fired yet. \<^verbatim>\<open>Date.now()\<close> is a
  natural number of milliseconds. \<^verbatim>\<open>timerIntervalRef\<close> holds, while the 100 ms interval is
  installed, the \<^verbatim>\<open>startTime\<close> that the interval's callback closed over. No handle of a
  \<^verbatim>\<open>setTimeout\<close> is ever stored by the source, so \<open>pendingTimeouts\<close> is changed only by
  scheduling and by firing.
\<close>

record App =
  levels :: "TypedLevel list"
  currentLevelIdx :: nat
  grid :: "CellState list"
  status :: GameStatus
  showQuitModal :: bool
  levelStats :: GameStats
  history :: "LevelRecord list"
  startTime :: "nat option"
  timerIntervalRef :: "nat option"
  pendingTimeouts :: "AdvanceClosure list"

definition initialApp :: App where
  "initialApp =
     \<lparr>levels = [], currentLevelIdx = 0, grid = createEmptyGrid, status = SETUP,
      showQuitModal = False, levelStats = \<lparr>timeSeconds = 0, steps = 0\<rparr>, history = [],
      startTime = None, timerIntervalRef = None, pendingTimeouts = []\<rparr>"

text \<open>
  The condition \<^verbatim>\<open>startTime ? ... : ...\<close> on a \<^verbatim>\<open>number | null\<close>: \<^verbatim>\<open>null\<close> and 0 are
  falsy.
\<close>

definition truthyTime :: "nat option \<Rightarrow> bool" where
  "truthyTime t = (case t of None \<Rightarrow> False | Some n \<Rightarrow> n \<noteq> 0)"

text \<open>\<^verbatim>\<open>Math.floor((now - start) / 1000)\<close>; integer division in HOL rounds down.\<close>

definition elapsedSeconds :: "nat \<Rightarrow> nat \<Rightarrow> int" where
  "elapsedSeconds now start = (int now - int start) div 1000"

text \<open>
  \<^verbatim>\<open>totalStats\<close>: \<^verbatim>\<open>history.reduce\<close> from \<^verbatim>\<open>{timeSeconds: 0, steps: 0}\<close> is a left
  fold; the memo depends on \<^verbatim>\<open>history\<close>, \<^verbatim>\<open>levelStats\<close> and \<^verbatim>\<open>status\<close>.
\<close>

definition totalStats :: "LevelRecord list \<Rightarrow> GameStats \<Rightarrow> GameStatus \<Rightarrow> GameStats" where
  "totalStats hist lstats st =
     (let historyTotal =
            foldl (\<lambda>acc curr.
                     \<lparr>timeSeconds = timeSeconds acc + timeSeconds (stats curr),
                      steps = steps acc + steps (stats curr)\<rparr>)
                  \<lparr>timeSeconds = 0, steps = 0\<rparr> hist
      in if st = PLAYING \<or> st = LEVEL_COMPLETE
         then \<lparr>timeSeconds = timeSeconds historyTotal + timeSeconds lstats,
               steps = steps historyTotal + steps lstats\<rparr>
         else historyTotal)"

text \<open>
  \<^verbatim>\<open>loadLevel(idx)\<close>, with the \<^verbatim>\<open>levels\<close> of the closure that calls it as a parameter.
\<close>

definition loadLevel :: "TypedLevel list \<Rightarrow> nat \<Rightarrow> App \<Rightarrow> App" where
  "loadLevel lvls idx s =
     (if idx \<ge> length lvls then s
      else s\<lparr>grid := initialState (lvls ! idx),
             levelStats := \<lparr>timeSeconds = 0, steps = 0\<rparr>,
             startTime := None\<rparr>)"

definition startGame :: "App \<Rightarrow> App" where
  "startGame s =
     (if length (levels s) = 0 then s
      else loadLevel (levels s) 0 (s\<lparr>status := IDLE, currentLevelIdx := 0, history := []\<rparr>))"

text \<open>
  \<^verbatim>\<open>quitToSetup\<close>: the interval is cleared and the four setters are called. Nothing here
  touches a pending \<^verbatim>\<open>setTimeout\<close>.
\<close>

definition quitToSetup :: "App \<Rightarrow> App" where
  "quitToSetup s =
     s\<lparr>timerIntervalRef := None, startTime := None, showQuitModal := False, status := SETUP\<rparr>"

definition startPlayingLevel :: "nat \<Rightarrow> App \<Rightarrow> App" where
  "startPlayingLevel now s = s\<lparr>status := PLAYING, startTime := Some now\<rparr>"

text \<open>
  The body of the \<^verbatim>\<open>setTimeout\<close> callback, run at time \<open>now\<close> on the state of that
  moment with the values it closed over.
\<close>

definition autoAdvance :: "nat \<Rightarrow> AdvanceClosure \<Rightarrow> App \<Rightarrow> App" where
  "autoAdvance now c s =
     (let nextIdx = closedLevelIdx c + 1
      in if nextIdx < length (closedLevels c)
         then (loadLevel (closedLevels c) nextIdx (s\<lparr>currentLevelIdx := nextIdx\<rparr>))
                \<lparr>status := PLAYING, startTime := Some now\<rparr>
         else s\<lparr>status := ALL_COMPLETE\<rparr>)"

text \<open>
  \<^verbatim>\<open>handleLevelComplete(finalGrid)\<close>. \<open>r\<close> is the render whose closure the handler
  belongs to (it supplies \<^verbatim>\<open>levels\<close>, \<^verbatim>\<open>currentLevelIdx\<close>, \<^verbatim>\<open>startTime\<close> and
  \<^verbatim>\<open>levelStats\<close>); \<open>s\<close> is the state with the updates already queued by the caller. When
  \<^verbatim>\<open>levels[currentLevelIdx]\<close> is \<^verbatim>\<open>undefined\<close>, reading \<^verbatim>\<open>currentLevel.id\<close> raises.
\<close>

definition handleLevelComplete :: "nat \<Rightarrow> CellState list \<Rightarrow> App \<Rightarrow> App \<Rightarrow> js_error + App" where
  "handleLevelComplete now finalGrid r s =
     (if currentLevelIdx r \<ge> length (levels r) then Inl TypeError
      else
        let currentLevel = levels r ! currentLevelIdx r;
            finalTime = (if truthyTime (startTime r)
                         then elapsedSeconds now (case startTime r of Some t \<Rightarrow> t | None \<Rightarrow> 0)
                         else timeSeconds (levelStats r));
            finalStats = \<lparr>timeSeconds = finalTime, steps = steps (levelStats r) + 1\<rparr>;
            record = \<lparr>levelId = id' currentLevel, name' = name currentLevel, stats = finalStats\<rparr>
        in Inr (s\<lparr>levelStats := finalStats,
                   history := history s @ [record],
                   status := LEVEL_COMPLETE,
                   pendingTimeouts := pendingTimeouts s @
                     [\<lparr>closedLevelIdx = currentLevelIdx r, closedLevels = levels r\<rparr>]\<rparr>))"

text \<open>
  \<^verbatim>\<open>handleCellClick(index)\<close>: the guard, the two queued updates, and the win check.
\<close>

definition handleCellClick :: "nat \<Rightarrow> nat \<Rightarrow> App \<Rightarrow> js_error + App" where
  "handleCellClick now index s =
     (if status s \<noteq> PLAYING then Inr s
      else
        let newGrid = toggleGridCell (grid s) index;
            s1 = s\<lparr>grid := newGrid\<rparr>;
            s2 = s1\<lparr>levelStats := (levelStats s1)\<lparr>steps := steps (levelStats s1) + 1\<rparr>\<rparr>
        in if isLevelSolved newGrid then handleLevelComplete now newGrid s s2 else Inr s2)"

text \<open>
  The timer effect, which React runs after a render in which \<^verbatim>\<open>status\<close> or
  \<^verbatim>\<open>startTime\<close> changed: the interval is installed exactly while the status is PLAYING
  and \<^verbatim>\<open>startTime\<close> is truthy.
\<close>

definition timerEffect :: "App \<Rightarrow> App" where
  "timerEffect s =
     s\<lparr>timerIntervalRef :=
         (if status s = PLAYING \<and> truthyTime (startTime s) then startTime s else None)\<rparr>"

text \<open>The interval's callback: the displayed seconds are refreshed from the clock.\<close>

definition tick :: "nat \<Rightarrow> App \<Rightarrow> App" where
  "tick now s =
     (case timerIntervalRef s of
        None \<Rightarrow> s
      | Some t0 \<Rightarrow> s\<lparr>levelStats := (levelStats s)\<lparr>timeSeconds := elapsedSeconds now t0\<rparr>\<rparr>)"

text \<open>The oldest pending one-shot timer fires (all are scheduled with the same delay).\<close>

definition fireTimeout :: "nat \<Rightarrow> App \<Rightarrow> App" where
  "fireTimeout now s =
     (case pendingTimeouts s of
        [] \<Rightarrow> s
      | c # rest \<Rightarrow> autoAdvance now c (s\<lparr>pendingTimeouts := rest\<rparr>))"

text \<open>
  What can happen to the component: a click on a control that the current render shows
  and enables, or a timer that fires. Each clock reading is the \<^verbatim>\<open>Date.now()\<close> of that
  moment. The controls are rendered as follows: the setup panel, which edits the level
  list through \<^verbatim>\<open>setLevels\<close> and holds the start button, when the status is SETUP; the
  begin button when it is IDLE; the cells, enabled when it is PLAYING (and covered by the
  quit dialog while that is open); the quit button and its confirmation whenever the
  status is not SETUP; the return button when it is ALL_COMPLETE.
\<close>

datatype Event =
    EditLevels "TypedLevel list"
  | ClickStart
  | ClickBegin nat
  | ClickCell nat nat
  | ClickQuit
  | ClickCancelQuit
  | ClickConfirmQuit
  | ClickReturn
  | IntervalFires nat
  | TimeoutFires nat

definition dispatch :: "Event \<Rightarrow> App \<Rightarrow> js_error + App" where
  "dispatch e s =
     (case e of
        EditLevels lvls \<Rightarrow> Inr (if status s = SETUP then s\<lparr>levels := lvls\<rparr> else s)
      | ClickStart \<Rightarrow> Inr (if status s = SETUP then startGame s else s)
      | ClickBegin now \<Rightarrow> Inr (if status s = IDLE then startPlayingLevel now s else s)
      | ClickCell now index \<Rightarrow>
          (if status s = PLAYING \<and> index < length (grid s) \<and> \<not> showQuitModal s
           then handleCellClick now index s else Inr s)
      | ClickQuit \<Rightarrow> Inr (if status s \<noteq> SETUP then s\<lparr>showQuitModal := True\<rparr> else s)
      | ClickCancelQuit \<Rightarrow>
          Inr (if status s \<noteq> SETUP \<and> showQuitModal s then s\<lparr>showQuitModal := False\<rparr> else s)
      | ClickConfirmQuit \<Rightarrow>
          Inr (if status s \<noteq> SETUP \<and> showQuitModal s then quitToSetup s else s)
      | ClickReturn \<Rightarrow> Inr (if status s = ALL_COMPLETE then s\<lparr>status := SETUP\<rparr> else s)
      | IntervalFires now \<Rightarrow> Inr (tick now s)
      | TimeoutFires now \<Rightarrow> Inr (fireTimeout now s))"

text \<open>One event, then the render and its effect; a run is a sequence of events.\<close>

definition step :: "Event \<Rightarrow> App \<Rightarrow> js_error + App" where
  "step e s = (case dispatch e s of Inl err \<Rightarrow> Inl err | Inr s' \<Rightarrow> Inr (timerEffect s'))"

fun run :: "Event list \<Rightarrow> App \<Rightarrow> js_error + App" where
  "run [] s = Inr s"
| "run (e # es) s = (case step e s of Inl err \<Rightarrow> Inl err | Inr s' \<Rightarrow> run es s')"

text \<open>
  An event whose clock reading is 0, the one reading that \<^verbatim>\<open>startTime ? ... : ...\<close> takes
  for "not started" (\<^verbatim>\<open>Date.now()\<close> counts milliseconds since 1970).
\<close>

definition readsClockZero :: "Event \<Rightarrow> bool" where
  "readsClockZero e = (case e of ClickBegin now \<Rightarrow> now = 0 | TimeoutFires now \<Rightarrow> now = 0 | _ \<Rightarrow> False)"

definition playingHasStart :: "App \<Rightarrow> bool" where
  "playingHasStart s = (if status s = PLAYING then truthyTime (startTime s) else True)"

section \<open>Level repository (components/AdminPanel.tsx)\<close>

subsection \<open>JavaScript values\<close>

text \<open>
  The values that \<^verbatim>\<open>JSON.parse\<close> returns, and \<^verbatim>\<open>undefined\<close>, which reading a missing
  property gives. A number is kept by its value (this code only asks whether it is zero;
  a literal too large for a double, which parses to \<^verbatim>\<open>Infinity\<close>, has no counterpart
  here), a string as its bytes, an object as its own properties in insertion order (the
  keys of a parsed object are distinct).
\<close>

datatype jsval =
    JUndefined
  | JNull
  | JBool bool
  | JNum rat
  | JStr string
  | JArr "jsval list"
  | JObj "(string \<times> jsval) list"

text \<open>
  Reading the property \<open>k\<close> of a value that is neither \<^verbatim>\<open>null\<close> nor \<^verbatim>\<open>undefined\<close>,
  for the two keys this code reads (\<^verbatim>\<open>initialState\<close> and \<^verbatim>\<open>name\<close>): an object gives its
  own property or \<^verbatim>\<open>undefined\<close>; arrays, strings, numbers and booleans have neither
  property.
\<close>

definition getProp :: "jsval \<Rightarrow> string \<Rightarrow> jsval" where
  "getProp v k =
     (case v of
        JObj props \<Rightarrow> (case map_of props k of Some x \<Rightarrow> x | None \<Rightarrow> JUndefined)
      | _ \<Rightarrow> JUndefined)"

text \<open>Truthiness, as \<^verbatim>\<open>&&\<close>, \<^verbatim>\<open>||\<close> and \<^verbatim>\<open>filter\<close> read a value.\<close>

definition truthy :: "jsval \<Rightarrow> bool" where
  "truthy v =
     (case v of
        JUndefined \<Rightarrow> False
      | JNull \<Rightarrow> False
      | JBool b \<Rightarrow> b
      | JNum n \<Rightarrow> n \<noteq> 0
      | JStr s \<Rightarrow> s \<noteq> []
      | JArr _ \<Rightarrow> True
      | JObj _ \<Rightarrow> True)"

definition isArray :: "jsval \<Rightarrow> bool" where
  "isArray v = (case v of JArr _ \<Rightarrow> True | _ \<Rightarrow> False)"

text \<open>\<^verbatim>\<open>typeof v === 'object'\<close> holds of objects, arrays and \<^verbatim>\<open>null\<close>.\<close>

definition typeofObject :: "jsval \<Rightarrow> bool" where
  "typeofObject v = (case v of JObj _ \<Rightarrow> True | JArr _ \<Rightarrow> True | JNull \<Rightarrow> True | _ \<Rightarrow> False)"

subsection \<open>Rendering numbers in template strings\<close>

definition digitChar :: "nat \<Rightarrow> char" where
  "digitChar d = ''0123456789'' ! d"

fun decimal :: "nat \<Rightarrow> string" where
  "decimal n = (if n < 10 then [digitChar n] else decimal (n div 10) @ [digitChar (n mod 10)])"

declare decimal.simps [simp del]

subsection \<open>Import\<close>

type_synonym ImportedLevel = "(jsval, jsval) Level"

text \<open>
  The panel's state as far as import and export go: the prop \<^verbatim>\<open>levels\<close> (written
  \<open>levels'\<close>), which \<^verbatim>\<open>setLevels\<close> changes, and the cells \<^verbatim>\<open>jsonInput\<close> and
  \<^verbatim>\<open>exportData\<close>.
\<close>

record AdminPanel =
  levels' :: "ImportedLevel list"
  jsonInput :: string
  exportData :: "string option"

text \<open>
  Whatever the \<^verbatim>\<open>try\<close> block of \<^verbatim>\<open>parseAndLoadLevels\<close> can throw into its \<^verbatim>\<open>catch\<close>: the
  \<^verbatim>\<open>SyntaxError\<close> of \<^verbatim>\<open>JSON.parse\<close>, the two \<^verbatim>\<open>Error\<close>s the code creates itself, and a
  runtime exception. The function ends in one \<^verbatim>\<open>alert\<close> either way.
\<close>

datatype ImportFailure = JsonSyntaxError | MustBeArray | NoValidLevels | Thrown js_error

datatype Alert = ImportSucceeded nat | ImportFailed ImportFailure

text \<open>
  The callback of \<^verbatim>\<open>parsed.filter\<close>:
  \<^verbatim>\<open>l.initialState && Array.isArray(l.initialState) && l.initialState.length === TOTAL_CELLS\<close>.
  Reading \<^verbatim>\<open>l.initialState\<close> raises when \<open>l\<close> is \<^verbatim>\<open>null\<close>.
\<close>

definition validLevel :: "jsval \<Rightarrow> js_error + bool" where
  "validLevel l =
     (case l of
        JNull \<Rightarrow> Inl TypeError
      | JUndefined \<Rightarrow> Inl TypeError
      | _ \<Rightarrow>
          Inr (truthy (getProp l ''initialState'') \<and>
               isArray (getProp l ''initialState'') \<and>
               (case getProp l ''initialState'' of
                  JArr cells \<Rightarrow> length cells = TOTAL_CELLS
                | _ \<Rightarrow> False)))"

text \<open>\<^verbatim>\<open>parsed.filter(...)\<close>, element by element; an exception ends it.\<close>

fun filterValid :: "jsval list \<Rightarrow> js_error + jsval list" where
  "filterValid [] = Inr []"
| "filterValid (l # ls) =
     (case validLevel l of
        Inl err \<Rightarrow> Inl err
      | Inr keep \<Rightarrow>
          (case filterValid ls of
             Inl err \<Rightarrow> Inl err
           | Inr rest \<Rightarrow> Inr (if keep then l # rest else rest)))"

text \<open>
  The identifier
  \<^verbatim>\<open>`import-${Date.now()}-${idx}-${Math.random().toString(36).substr(2, 9)}`\<close>, from the
  clock reading \<open>t\<close> and the random suffix \<open>r\<close> of that moment.
\<close>

definition importId :: "nat \<Rightarrow> nat \<Rightarrow> string \<Rightarrow> string" where
  "importId t idx r = ''import-'' @ decimal t @ ''-'' @ decimal idx @ ''-'' @ r"

text \<open>
  The default name: the four Chinese characters of the source's label and a space, as
  UTF-8 bytes, followed by \<^verbatim>\<open>idx + 1\<close>.
\<close>

definition importLabel :: "nat \<Rightarrow> string" where
  "importLabel idx =
     [CHR 0xE5, CHR 0xAF, CHR 0xBC, CHR 0xE5, CHR 0x85, CHR 0xA5,
      CHR 0xE5, CHR 0x85, CHR 0xB3, CHR 0xE5, CHR 0x8D, CHR 0xA1, CHR 0x20] @ decimal (idx + 1)"

text \<open>
  The callback of \<^verbatim>\<open>validLevels.map\<close>. \<open>now idx\<close> and \<open>random idx\<close> are what
  \<^verbatim>\<open>Date.now()\<close> and \<^verbatim>\<open>Math.random().toString(36).substr(2, 9)\<close> return in the call for
  index \<open>idx\<close>.
\<close>

definition cleanLevel :: "(nat \<Rightarrow> nat) \<Rightarrow> (nat \<Rightarrow> string) \<Rightarrow> nat \<Rightarrow> jsval \<Rightarrow> ImportedLevel" where
  "cleanLevel now random idx l =
     \<lparr>id' = importId (now idx) idx (random idx),
      name = (if truthy (getProp l ''name'') then getProp l ''name''
              else JStr (importLabel idx)),
      initialState = getProp l ''initialState''\<rparr>"

text \<open>
  \<^verbatim>\<open>parseAndLoadLevels(jsonString)\<close>. The argument \<open>parsed\<close> is the outcome of
  \<^verbatim>\<open>JSON.parse(jsonString)\<close>: \<open>None\<close> when it throws. Every failure goes through the
  \<^verbatim>\<open>catch\<close>, which only alerts; success appends, alerts and clears the text field.
\<close>

definition parseAndLoadLevels ::
  "(nat \<Rightarrow> nat) \<Rightarrow> (nat \<Rightarrow> string) \<Rightarrow> jsval option \<Rightarrow> AdminPanel \<Rightarrow> Alert \<times> AdminPanel" where
  "parseAndLoadLevels now random parsed p =
     (case parsed of
        None \<Rightarrow> (ImportFailed JsonSyntaxError, p)
      | Some v \<Rightarrow>
          (case (if \<not> isArray v \<and> typeofObject v then JArr [v] else v) of
             JArr elems \<Rightarrow>
               (case filterValid elems of
                  Inl err \<Rightarrow> (ImportFailed (Thrown err), p)
                | Inr validLevels \<Rightarrow>
                    if length validLevels = 0 then (ImportFailed NoValidLevels, p)
                    else
                      let cleanedLevels =
                            map (\<lambda>(idx, l). cleanLevel now random idx l)
                                (enumerate 0 validLevels)
                      in (ImportSucceeded (length cleanedLevels),
                          p\<lparr>levels' := levels' p @ cleanedLevels, jsonInput := []\<rparr>))
           | _ \<Rightarrow> (ImportFailed MustBeArray, p)))"

subsection \<open>The visual editor\<close>

text \<open>
  \<^verbatim>\<open>addLevelFromEditor\<close>, the other way a level enters the list: its id is
  \<^verbatim>\<open>`level-${Date.now()}`\<close>, its name the two Chinese characters of the source's label, a
  space and \<^verbatim>\<open>levels.length + 1\<close>, its initial state a copy of the editor's grid (the
  parameter \<open>editorGrid\<close>).
\<close>

definition editorId :: "nat \<Rightarrow> string" where
  "editorId t = ''level-'' @ decimal t"

definition editorLabel :: "nat \<Rightarrow> string" where
  "editorLabel count =
     [CHR 0xE5, CHR 0x85, CHR 0xB3, CHR 0xE5, CHR 0x8D, CHR 0xA1, CHR 0x20] @ decimal (count + 1)"

definition addLevelFromEditor :: "nat \<Rightarrow> CellState list \<Rightarrow> AdminPanel \<Rightarrow> AdminPanel" where
  "addLevelFromEditor now editorGrid p =
     p\<lparr>levels' := levels' p @
          [\<lparr>id' = editorId now,
            name = JStr (editorLabel (length (levels' p))),
            initialState = JArr (map JBool editorGrid)\<rparr>]\<rparr>"

subsection \<open>Where an identifier comes from\<close>

text \<open>
  The two templates from which the code makes every id of the level list: the editor's,
  from a clock reading, and the import's, from a clock reading, an index and a random
  suffix. \<open>unusedReading now random n origins\<close> says that none of the ids in
  \<open>origins\<close> was made by an import with the clock reading, index and suffix that the
  present import of \<open>n\<close> levels uses for one of its levels.
\<close>

datatype IdOrigin = FromEditor nat | FromImport nat nat string

fun renderId :: "IdOrigin \<Rightarrow> string" where
  "renderId (FromEditor t) = editorId t"
| "renderId (FromImport t idx r) = importId t idx r"

definition unusedReading :: "(nat \<Rightarrow> nat) \<Rightarrow> (nat \<Rightarrow> string) \<Rightarrow> nat \<Rightarrow> IdOrigin list \<Rightarrow> bool" where
  "unusedReading now random n origins =
     list_all (\<lambda>origin.
        list_all (\<lambda>idx. origin \<noteq> FromImport (now idx) idx (random idx)) [0..<n]) origins"

subsection \<open>Export\<close>

text \<open>
  \<^verbatim>\<open>handleJsonExport\<close>, with \<^verbatim>\<open>JSON.stringify(levels, null, 2)\<close> as the parameter
  \<open>stringify\<close>.
\<close>

definition handleJsonExport :: "(ImportedLevel list \<Rightarrow> string) \<Rightarrow> AdminPanel \<Rightarrow> AdminPanel" where
  "handleJsonExport stringify p = p\<lparr>exportData := Some (stringify (levels' p))\<rparr>"

text \<open>
  A click on the export button, which is rendered with
  \<^verbatim>\<open>disabled={levels.length === 0}\<close>: a disabled button does not call its handler.
\<close>

definition clickExport :: "(ImportedLevel list \<Rightarrow> string) \<Rightarrow> AdminPanel \<Rightarrow> AdminPanel" where
  "clickExport stringify p = (if length (levels' p) = 0 then p else handleJsonExport stringify p)"

subsection \<open>Validation, in the words of the specification\<close>

text \<open>
  A candidate is accepted iff it has an \<^verbatim>\<open>initialState\<close> field that is a sequence of
  exactly N booleans.
\<close>

definition isBoolean :: "jsval \<Rightarrow> bool" where
  "isBoolean v = (case v of JBool _ \<Rightarrow> True | _ \<Rightarrow> False)"

definition nineBooleans :: "jsval \<Rightarrow> bool" where
  "nineBooleans v =
     (case v of
        JArr cells \<Rightarrow> length cells = 9 \<and> list_all isBoolean cells
      | _ \<Rightarrow> False)"

definition specAccepts :: "jsval \<Rightarrow> bool" where
  "specAccepts l = nineBooleans (getProp l ''initialState'')"

text \<open>What the code checks: an array of exactly N elements, of whatever kind.\<close>

definition hasNineCells :: "jsval \<Rightarrow> bool" where
  "hasNineCells l =
     (case getProp l ''initialState'' of
        JArr cells \<Rightarrow> length cells = 9
      | _ \<Rightarrow> False)"

subsection \<open>Reading a rendered number back\<close>

text \<open>
  The value of a string of decimal digits; it inverts \<open>decimal\<close>, which is how the
  proofs below know that two different indices are rendered differently.
\<close>

definition digitValue :: "char \<Rightarrow> nat" where
  "digitValue c = of_char c - 48"

definition decimalValue :: "string \<Rightarrow> nat" where
  "decimalValue s = foldl (\<lambda>a c. 10 * a + digitValue c) 0 s"

section \<open>A concrete competition\<close>

text \<open>
  Two levels; the first is one click (on the interior cell) away from solved. The states
  below are those a run passes through when the competition begins at clock
  1700000000000, the interval last fires 4.9 s later (so that 4 seconds are displayed),
  the first level is won 5.4 s after the beginning, the user quits, and the auto-advance
  timer fires one second after the win; the theorems further down compute them.
\<close>

definition demoLevels :: "TypedLevel list" where
  "demoLevels =
     [\<lparr>id' = ''level-1'', name = ''One'',
       initialState = [True, False, True, False, False, False, True, False, True]\<rparr>,
      \<lparr>id' = ''level-2'', name = ''Two'',
       initialState = [False, False, False, False, False, False, False, False, False]\<rparr>]"

definition demoPlaying :: App where
  "demoPlaying =
     \<lparr>levels = demoLevels, currentLevelIdx = 0,
      grid = [True, False, True, False, False, False, True, False, True],
      status = PLAYING, showQuitModal = False,
      levelStats = \<lparr>timeSeconds = 4, steps = 0\<rparr>, history = [],
      startTime = Some 1700000000000, timerIntervalRef = Some 1700000000000,
      pendingTimeouts = []\<rparr>"

definition demoRecord :: LevelRecord where
  "demoRecord = \<lparr>levelId = ''level-1'', name' = ''One'', stats = \<lparr>timeSeconds = 5, steps = 1\<rparr>\<rparr>"

definition demoComplete :: App where
  "demoComplete =
     \<lparr>levels = demoLevels, currentLevelIdx = 0,
      grid = [True, True, True, True, True, True, True, True, True],
      status = LEVEL_COMPLETE, showQuitModal = False,
      levelStats = \<lparr>timeSeconds = 5, steps = 1\<rparr>, history = [demoRecord],
      startTime = Some 1700000000000, timerIntervalRef = None,
      pendingTimeouts = [\<lparr>closedLevelIdx = 0, closedLevels = demoLevels\<rparr>]\<rparr>"

definition demoQuit :: App where
  "demoQuit =
     \<lparr>levels = demoLevels, currentLevelIdx = 0,
      grid = [True, True, True, True, True, True, True, True, True],
      status = SETUP, showQuitModal = False,
      levelStats = \<lparr>timeSeconds = 5, steps = 1\<rparr>, history = [demoRecord],
      startTime = None, timerIntervalRef = None,
      pendingTimeouts = [\<lparr>closedLevelIdx = 0, closedLevels = demoLevels\<rparr>]\<rparr>"

definition demoAfterTimeout :: App where
  "demoAfterTimeout =
     \<lparr>levels = demoLevels, currentLevelIdx = 1,
      grid = [False, False, False, False, False, False, False, False, False],
      status = PLAYING, showQuitModal = False,
      levelStats = \<lparr>timeSeconds = 0, steps = 0\<rparr>, history = [demoRecord],
      startTime = Some 1700000006400, timerIntervalRef = Some 1700000006400,
      pendingTimeouts = []\<rparr>"

section \<open>Concrete level documents\<close>

text \<open>
  \<^verbatim>\<open>{"id": "mine", "initialState": [true, false, true, false, false, false, true, false, true]}\<close>,
  a level without a name and with an id of its own.
\<close>

definition validDoc :: jsval where
  "validDoc =
     JObj [(''id'', JStr ''mine''),
           (''initialState'',
            JArr [JBool True, JBool False, JBool True, JBool False, JBool False, JBool False,
                  JBool True, JBool False, JBool True])]"

text \<open>\<^verbatim>\<open>{"name": "Short", "initialState": [true, ... ]}\<close> with eight cells only.\<close>

definition shortDoc :: jsval where
  "shortDoc =
     JObj [(''name'', JStr ''Short''),
           (''initialState'',
            JArr [JBool True, JBool True, JBool True, JBool True, JBool True, JBool True,
                  JBool True, JBool True])]"

text \<open>\<^verbatim>\<open>{"name": "Numbers", "initialState": [1, 0, 1, 0, 1, 0, 1, 0, 1]}\<close>.\<close>

definition numbersDoc :: jsval where
  "numbersDoc =
     JObj [(''name'', JStr ''Numbers''),
           (''initialState'',
            JArr [JNum 1, JNum 0, JNum 1, JNum 0, JNum 1, JNum 0, JNum 1, JNum 0, JNum 1])]"

text \<open>
  A clock that reads 1700000000000 at every call, and a random source that yields 0.5 at
  every call: \<^verbatim>\<open>(0.5).toString(36)\<close> is \<^verbatim>\<open>"0.i"\<close>, whose \<^verbatim>\<open>substr(2, 9)\<close> is
  \<^verbatim>\<open>"i"\<close>.
\<close>

definition demoClock :: "nat \<Rightarrow> nat" where
  "demoClock idx = 1700000000000"

definition demoRandom :: "nat \<Rightarrow> string" where
  "demoRandom idx = ''i''"

definition emptyPanel :: AdminPanel where
  "emptyPanel = \<lparr>levels' = [], jsonInput = [], exportData = None\<rparr>"

definition importedDoc :: ImportedLevel where
  "importedDoc =
     \<lparr>id' = ''import-1700000000000-0-i'',
      name = JStr ([CHR 0xE5, CHR 0xAF, CHR 0xBC, CHR 0xE5, CHR 0x85, CHR 0xA5,
                    CHR 0xE5, CHR 0x85, CHR 0xB3, CHR 0xE5, CHR 0x8D, CHR 0xA1, CHR 0x20] @ ''1''),
      initialState =
        JArr [JBool True, JBool False, JBool True, JBool False, JBool False, JBool False,
              JBool True, JBool False, JBool True]\<rparr>"

text \<open>
  A list that already holds a level made in the visual editor (at clock 1699999000000,
  from the empty grid) and a level imported earlier (at clock 1699999990000, with the
  same random suffix as the import below).
\<close>

definition editorLevel :: ImportedLevel where
  "editorLevel =
     \<lparr>id' = ''level-1699999000000'',
      name = JStr ([CHR 0xE5, CHR 0x85, CHR 0xB3, CHR 0xE5, CHR 0x8D, CHR 0xA1, CHR 0x20] @ ''1''),
      initialState =
        JArr [JBool False, JBool False, JBool False, JBool False, JBool False, JBool False,
              JBool False, JBool False, JBool False]\<rparr>"

definition importedEarlier :: ImportedLevel where
  "importedEarlier =
     \<lparr>id' = ''import-1699999990000-0-i'', name = JStr ''Earlier'',
      initialState =
        JArr [JBool True, JBool True, JBool True, JBool True, JBool False, JBool True,
              JBool True, JBool True, JBool True]\<rparr>"

definition demoOrigins :: "IdOrigin list" where
  "demoOrigins = [FromEditor 1699999000000, FromImport 1699999990000 0 ''i'']"

definition panelWithLevel :: AdminPanel where
  "panelWithLevel =
     \<lparr>levels' = [editorLevel, importedEarlier], jsonInput = ''[...]'', exportData = None\<rparr>"

definition importedNumbers :: ImportedLevel where
  "importedNumbers =
     \<lparr>id' = ''import-1700000000000-1-i'', name = JStr ''Numbers'',
      initialState =
        JArr [JNum 1, JNum 0, JNum 1, JNum 0, JNum 1, JNum 0, JNum 1, JNum 0, JNum 1]\<rparr>"

definition panelAfterBatch :: AdminPanel where
  "panelAfterBatch =
     \<lparr>levels' = [editorLevel, importedEarlier, importedDoc, importedNumbers],
      jsonInput = [], exportData = None\<rparr>"

text \<open>The panel after importing the document of numbers alone into an empty list.\<close>

definition panelWithNumbers :: AdminPanel where
  "panelWithNumbers =
     \<lparr>levels' =
        [\<lparr>id' = ''import-1700000000000-0-i'', name = JStr ''Numbers'',
          initialState =
            JArr [JNum 1, JNum 0, JNum 1, JNum 0, JNum 1, JNum 0, JNum 1, JNum 0, JNum 1]\<rparr>],
      jsonInput = [], exportData = None\<rparr>"

text \<open>A stand-in for \<^verbatim>\<open>JSON.stringify\<close>: the ids of the levels, one per line.\<close>

definition demoStringify :: "ImportedLevel list \<Rightarrow> string" where
  "demoStringify ls = concat (map (\<lambda>l. id' l @ [CHR 0x0A]) ls)"

section \<open>Properties of the grid engine\<close>

lemma nine_cases:
  "i < (9::nat) \<Longrightarrow>
     i = 0 \<or> i = Suc 0 \<or> i = 2 \<or> i = 3 \<or> i = 4 \<or> i = 5 \<or> i = 6 \<or> i = 7 \<or> i = 8"
  by arith

lemma length_nine:
  "length (g :: 'a list) = 9 \<Longrightarrow> \<exists>a b c d e f u v w. g = [a, b, c, d, e, f, u, v, w]"
  by (simp add: numeral_eq_Suc length_Suc_conv) blast

lemma upt9: "[0..<9] = [0, 1, 2, 3, 4, 5, 6, 7, 8::nat]"
  by code_simp

text \<open>The toggle at each of the nine indices, computed on a grid of nine unknown cells.\<close>

lemma toggle_cells:
  "toggleGridCell [a, b, c, d, e, f, u, v, w] 0 = [\<not> a, \<not> b, c, \<not> d, e, f, u, v, w]"
  "toggleGridCell [a, b, c, d, e, f, u, v, w] (Suc 0) = [\<not> a, \<not> b, \<not> c, d, \<not> e, f, u, v, w]"
  "toggleGridCell [a, b, c, d, e, f, u, v, w] 2 = [a, \<not> b, \<not> c, d, e, \<not> f, u, v, w]"
  "toggleGridCell [a, b, c, d, e, f, u, v, w] 3 = [\<not> a, b, c, \<not> d, \<not> e, f, \<not> u, v, w]"
  "toggleGridCell [a, b, c, d, e, f, u, v, w] 4 = [a, \<not> b, c, \<not> d, \<not> e, \<not> f, u, \<not> v, w]"
  "toggleGridCell [a, b, c, d, e, f, u, v, w] 5 = [a, b, \<not> c, d, \<not> e, \<not> f, u, v, \<not> w]"
  "toggleGridCell [a, b, c, d, e, f, u, v, w] 6 = [a, b, c, \<not> d, e, f, \<not> u, \<not> v, w]"
  "toggleGridCell [a, b, c, d, e, f, u, v, w] 7 = [a, b, c, d, \<not> e, f, \<not> u, \<not> v, \<not> w]"
  "toggleGridCell [a, b, c, d, e, f, u, v, w] 8 = [a, b, c, d, e, \<not> f, u, \<not> v, \<not> w]"
  by (simp_all add: toggleGridCell_def flipCell_def GRID_SIZE_def)

lemmas plus_defs =
  orthogonal_neighbour_def diagonal_neighbour_def adjacent_def cell_row_def cell_col_def

lemma toggle_length:
  assumes "i < 9"
  shows "length (toggleGridCell [a, b, c, d, e, f, u, v, w] i) = 9"
  using nine_cases [OF assms] by (elim disjE; simp add: toggle_cells)

lemma toggle_count:
  assumes "i < 9"
  shows "changed_cells [a, b, c, d, e, f, u, v, w] (toggleGridCell [a, b, c, d, e, f, u, v, w] i) =
           (if is_corner i then 3 else if is_interior i then 5 else 4)"
  using nine_cases [OF assms]
  by (elim disjE; simp add: toggle_cells changed_cells_def upt9 is_corner_def is_interior_def)

lemma toggle_cell:
  assumes "i < 9" and "j < 9"
  shows "toggleGridCell [a, b, c, d, e, f, u, v, w] i ! j =
           (if j = i \<or> orthogonal_neighbour i j then \<not> [a, b, c, d, e, f, u, v, w] ! j
            else [a, b, c, d, e, f, u, v, w] ! j)"
  using nine_cases [OF assms(1)] nine_cases [OF assms(2)]
  by (elim disjE; simp add: toggle_cells plus_defs)

lemma toggle_twice_cells:
  assumes "i < 9"
  shows "toggleGridCell (toggleGridCell [a, b, c, d, e, f, u, v, w] i) i =
           [a, b, c, d, e, f, u, v, w]"
  using nine_cases [OF assms] by (elim disjE; simp add: toggle_cells)

lemma diagonal_not_orthogonal:
  assumes "i < 9" and "j < 9"
  shows "diagonal_neighbour i j \<longrightarrow> j \<noteq> i \<and> \<not> orthogonal_neighbour i j"
  using nine_cases [OF assms(1)] nine_cases [OF assms(2)]
  by (elim disjE; simp add: plus_defs)

text \<open>
  C2. For a grid \<open>g\<close> of nine cells and an index \<open>i < 9\<close>, \<open>toggleGridCell g i\<close> is
  again a grid of nine cells (a new value: \<open>g\<close> itself is a value and cannot change); its
  cell \<open>j\<close> is the inverse of \<open>g\<close>'s exactly when \<open>j\<close> is \<open>i\<close> or an orthogonal
  neighbour of \<open>i\<close> inside the 3x3 square, and equal to \<open>g\<close>'s otherwise; a diagonal
  neighbour is never changed; and the number of changed cells is 3 at a corner, 5 at the
  interior index and 4 at the other (edge) indices.
\<close>

theorem toggleGridCell_plus_shape:
  assumes len: "length g = 9" and i: "i < 9" and j: "j < 9"
  shows "length (toggleGridCell g i) = 9 \<and>
         toggleGridCell g i ! j =
           (if j = i \<or> orthogonal_neighbour i j then \<not> g ! j else g ! j) \<and>
         (diagonal_neighbour i j \<longrightarrow> toggleGridCell g i ! j = g ! j) \<and>
         changed_cells g (toggleGridCell g i) =
           (if is_corner i then 3 else if is_interior i then 5 else 4)"
proof -
  from length_nine [OF len] obtain a b c d e f u v w
    where g: "g = [a, b, c, d, e, f, u, v, w]"
    by (elim exE)
  have cell: "toggleGridCell g i ! j =
      (if j = i \<or> orthogonal_neighbour i j then \<not> g ! j else g ! j)"
    unfolding g by (rule toggle_cell [OF i j])
  have diag: "diagonal_neighbour i j \<longrightarrow> toggleGridCell g i ! j = g ! j"
    using cell diagonal_not_orthogonal [OF i j] by simp
  have len': "length (toggleGridCell g i) = 9"
    unfolding g by (rule toggle_length [OF i])
  have cnt: "changed_cells g (toggleGridCell g i) =
           (if is_corner i then 3 else if is_interior i then 5 else 4)"
    unfolding g by (rule toggle_count [OF i])
  from len' cell diag cnt show ?thesis by (intro conjI)
qed

text \<open>
  The theorem at the empty grid: toggling the interior index 4 inverts the edge cell 1,
  leaves the corner cell 0 (a diagonal neighbour) alone, and changes five cells.
\<close>

theorem toggleGridCell_plus_shape_witness:
  "length createEmptyGrid = 9 \<and> (4::nat) < 9 \<and> (1::nat) < 9 \<and> (0::nat) < 9 \<and>
   length (toggleGridCell createEmptyGrid 4) = 9 \<and>
   toggleGridCell createEmptyGrid 4 ! 1 = True \<and>
   toggleGridCell createEmptyGrid 4 ! 0 = False \<and>
   diagonal_neighbour 4 0 \<and>
   changed_cells createEmptyGrid (toggleGridCell createEmptyGrid 4) = 5"
proof -
  have e: "createEmptyGrid = [False, False, False, False, False, False, False, False, False]"
    by (simp add: createEmptyGrid_def TOTAL_CELLS_def GRID_SIZE_def numeral_eq_Suc)
  have len: "length createEmptyGrid = 9"
    by (simp add: e)
  have diag: "diagonal_neighbour 4 0" and orth: "orthogonal_neighbour 4 1"
    and north: "\<not> orthogonal_neighbour 4 0"
    by (simp_all add: plus_defs)
  from toggleGridCell_plus_shape [OF len, of 4 1] toggleGridCell_plus_shape [OF len, of 4 0]
    len diag orth north
  show ?thesis
    by (simp add: e is_corner_def is_interior_def)
qed

text \<open>
  C3. For a grid \<open>g\<close> of nine cells and an index \<open>i < 9\<close>, toggling twice at \<open>i\<close>
  gives \<open>g\<close> back.
\<close>

theorem toggleGridCell_self_inverse:
  assumes len: "length g = 9" and i: "i < 9"
  shows "toggleGridCell (toggleGridCell g i) i = g"
proof -
  from length_nine [OF len] obtain a b c d e f u v w
    where g: "g = [a, b, c, d, e, f, u, v, w]"
    by (elim exE)
  show ?thesis unfolding g by (rule toggle_twice_cells [OF i])
qed

theorem toggleGridCell_self_inverse_witness:
  "length [True, False, True, False, False, False, True, False, True] = 9 \<and> (4::nat) < 9 \<and>
   toggleGridCell (toggleGridCell [True, False, True, False, False, False, True, False, True] 4) 4
     = [True, False, True, False, False, False, True, False, True]"
  using toggleGridCell_self_inverse [of "[True, False, True, False, False, False, True, False, True]" 4]
  by simp

section \<open>Properties of the run controller\<close>

lemmas handler_defs =
  step_def dispatch_def timerEffect_def startGame_def loadLevel_def startPlayingLevel_def
  quitToSetup_def handleCellClick_def handleLevelComplete_def fireTimeout_def autoAdvance_def
  tick_def truthyTime_def elapsedSeconds_def isLevelSolved_def Let_def

subsection \<open>Totals\<close>

lemma history_fold:
  "foldl (\<lambda>acc curr. \<lparr>timeSeconds = timeSeconds acc + timeSeconds (stats curr),
                        steps = steps acc + steps (stats curr)\<rparr>) a hist =
     \<lparr>timeSeconds = timeSeconds a + sum_list (map (\<lambda>r. timeSeconds (stats r)) hist),
      steps = steps a + sum_list (map (\<lambda>r. steps (stats r)) hist)\<rparr>"
  by (induction hist arbitrary: a) simp_all

text \<open>
  C9. For every history, current stats and phase, \<open>totalStats\<close> is the sum of the
  seconds and the sum of the steps over all history entries, to which the current stats
  are added exactly when the phase is PLAYING or LEVEL_COMPLETE (so not in SETUP, IDLE or
  ALL_COMPLETE).
\<close>

theorem totalStats_sums:
  "totalStats hist cur ph =
     \<lparr>timeSeconds = sum_list (map (\<lambda>r. timeSeconds (stats r)) hist) +
                     (if ph = PLAYING \<or> ph = LEVEL_COMPLETE then timeSeconds cur else 0),
      steps = sum_list (map (\<lambda>r. steps (stats r)) hist) +
                     (if ph = PLAYING \<or> ph = LEVEL_COMPLETE then steps cur else 0)\<rparr>"
  by (simp add: totalStats_def history_fold)

text \<open>
  The example of the specification: level 1 completed with 10 s and 5 steps, level 2 in
  progress with 3 s and 2 steps.
\<close>

lemma totalStats_example:
  "totalStats [\<lparr>levelId = ''level-1'', name' = ''One'', stats = \<lparr>timeSeconds = 10, steps = 5\<rparr>\<rparr>]
     \<lparr>timeSeconds = 3, steps = 2\<rparr> PLAYING = \<lparr>timeSeconds = 13, steps = 7\<rparr>"
  by (simp add: totalStats_def)

lemma totalStats_excluded:
  "ph = SETUP \<or> ph = IDLE \<or> ph = ALL_COMPLETE \<Longrightarrow>
     totalStats hist cur ph = totalStats hist \<lparr>timeSeconds = 0, steps = 0\<rparr> ph"
  by (auto simp: totalStats_def)

subsection \<open>The toggle guard\<close>

text \<open>
  C8. In any phase other than PLAYING, \<open>handleCellClick\<close> returns the state it was
  given, without an exception: grid, stats (and so the step count), history and phase
  are unchanged. The same holds of a click on a cell as the component dispatches it.
\<close>

theorem handleCellClick_outside_PLAYING:
  assumes "status s \<noteq> PLAYING"
  shows "handleCellClick now index s = Inr s \<and> dispatch (ClickCell now index) s = Inr s"
  using assms by (simp add: handleCellClick_def dispatch_def)

theorem handleCellClick_outside_PLAYING_witness:
  "status demoComplete \<noteq> PLAYING \<and>
   handleCellClick 1700000005900 4 demoComplete = Inr demoComplete \<and>
   dispatch (ClickCell 1700000005900 4) demoComplete = Inr demoComplete"
  using handleCellClick_outside_PLAYING [of demoComplete 1700000005900 4]
  by (simp add: demoComplete_def)

subsection \<open>Completing a level\<close>

text \<open>
  C7. In PLAYING, with the start timestamp \<open>t\<close> stored and the current level present, a
  toggle whose result is solved moves the run to LEVEL_COMPLETE. The final stats have the
  prior steps plus one and, as seconds, the clock at completion minus \<open>t\<close>, in whole
  seconds; the seconds last sampled by the interval (\<open>timeSeconds (levelStats s)\<close>) do
  not occur in the result (in the witness the interval has sampled 4 and the record
  holds 5). A record with the level's id and name and these stats is
  appended to the history. The auto-advance timer is scheduled.
\<close>

theorem winning_toggle_completes_level:
  assumes playing: "status s = PLAYING"
    and started: "startTime s = Some t" "t \<noteq> 0"
    and level: "currentLevelIdx s < length (levels s)"
    and solved: "isLevelSolved (toggleGridCell (grid s) index)"
  shows "handleCellClick now index s =
           Inr (s\<lparr>grid := toggleGridCell (grid s) index,
                  levelStats := \<lparr>timeSeconds = (int now - int t) div 1000,
                                 steps = steps (levelStats s) + 1\<rparr>,
                  history := history s @
                    [\<lparr>levelId = id' (levels s ! currentLevelIdx s),
                      name' = name (levels s ! currentLevelIdx s),
                      stats = \<lparr>timeSeconds = (int now - int t) div 1000,
                               steps = steps (levelStats s) + 1\<rparr>\<rparr>],
                  status := LEVEL_COMPLETE,
                  pendingTimeouts := pendingTimeouts s @
                    [\<lparr>closedLevelIdx = currentLevelIdx s, closedLevels = levels s\<rparr>]\<rparr>)"
  using assms
  by (simp add: handleCellClick_def handleLevelComplete_def truthyTime_def elapsedSeconds_def
      Let_def)

lemma toggle_demo:
  "toggleGridCell [True, False, True, False, False, False, True, False, True] 4 =
     [True, True, True, True, True, True, True, True, True]"
  by (simp add: toggleGridCell_def flipCell_def GRID_SIZE_def)

text \<open>The state of the witness is the one the concrete competition reaches before the win.\<close>

lemma run_to_demoPlaying:
  "run [EditLevels demoLevels, ClickStart, ClickBegin 1700000000000,
        IntervalFires 1700000004900] initialApp = Inr demoPlaying"
  by (simp add: handler_defs initialApp_def demoLevels_def demoPlaying_def)

theorem winning_toggle_completes_level_witness:
  "status demoPlaying = PLAYING \<and> startTime demoPlaying = Some 1700000000000 \<and>
   (1700000000000::nat) \<noteq> 0 \<and>
   currentLevelIdx demoPlaying < length (levels demoPlaying) \<and>
   isLevelSolved (toggleGridCell (grid demoPlaying) 4) \<and>
   handleCellClick 1700000005400 4 demoPlaying =
     Inr (demoComplete\<lparr>timerIntervalRef := Some 1700000000000\<rparr>)"
proof -
  have h: "status demoPlaying = PLAYING" "startTime demoPlaying = Some 1700000000000"
    "(1700000000000::nat) \<noteq> 0"
    "currentLevelIdx demoPlaying < length (levels demoPlaying)"
    "isLevelSolved (toggleGridCell (grid demoPlaying) 4)"
    by (simp_all add: demoPlaying_def demoLevels_def toggle_demo isLevelSolved_def)
  from winning_toggle_completes_level [OF h, of 1700000005400] h show ?thesis
    by (simp add: demoPlaying_def demoLevels_def demoComplete_def demoRecord_def toggle_demo)
qed

text \<open>
  The hypothesis on the start timestamp holds in every state that a run reaches in
  PLAYING, as long as no clock reading is 0: both ways into PLAYING store the clock.
\<close>

lemma step_playingHasStart:
  assumes "\<not> readsClockZero e" and "playingHasStart s" and "step e s = Inr s'"
  shows "playingHasStart s'"
proof (cases e)
  case (ClickCell now index)
  show ?thesis
  proof (cases "status s = PLAYING")
    case True
    with assms ClickCell show ?thesis
      by (auto simp: playingHasStart_def handler_defs split: if_splits)
  next
    case False
    with assms ClickCell show ?thesis
      by (auto simp: playingHasStart_def handler_defs split: if_splits)
  qed
next
  case (TimeoutFires now)
  with assms show ?thesis
    by (auto simp: playingHasStart_def readsClockZero_def handler_defs
        split: if_splits list.splits)
next
  case (IntervalFires now)
  with assms show ?thesis
    by (auto simp: playingHasStart_def handler_defs split: if_splits option.splits)
qed (use assms in \<open>auto simp: playingHasStart_def readsClockZero_def handler_defs
        split: if_splits\<close>)

lemma run_playingHasStart:
  assumes "list_all (\<lambda>e. \<not> readsClockZero e) es" and "playingHasStart s" and "run es s = Inr s'"
  shows "playingHasStart s'"
  using assms
proof (induction es arbitrary: s)
  case Nil
  then show ?case by simp
next
  case (Cons e es)
  from Cons.prems(3) obtain s1 where s1: "step e s = Inr s1" and rest: "run es s1 = Inr s'"
    by (auto split: sum.splits)
  from Cons.prems(1) have "\<not> readsClockZero e" and "list_all (\<lambda>e. \<not> readsClockZero e) es"
    by simp_all
  with Cons.IH step_playingHasStart [OF _ Cons.prems(2) s1] rest show ?case
    by blast
qed

lemma initialApp_playingHasStart: "playingHasStart initialApp"
  by (simp add: playingHasStart_def initialApp_def)

subsection \<open>Quitting while the auto-advance timer is pending\<close>

text \<open>
  \<open>quitToSetup\<close> leaves the scheduled one-shot timers where they are, and the callback
  does not look at the phase: fired after a quit, it takes the run out of SETUP again.
\<close>

lemma quitToSetup_keeps_timeouts:
  "pendingTimeouts (quitToSetup s) = pendingTimeouts s \<and> status (quitToSetup s) = SETUP"
  by (simp add: quitToSetup_def)

lemma stale_timeout_leaves_SETUP:
  "pendingTimeouts s = c # rest \<Longrightarrow> status (fireTimeout now (quitToSetup s)) \<noteq> SETUP"
  by (simp add: fireTimeout_def autoAdvance_def quitToSetup_def loadLevel_def Let_def)

lemma click_wins:
  "step (ClickCell 1700000005400 4) demoPlaying = Inr demoComplete"
  by (simp add: handler_defs toggle_demo demoLevels_def demoPlaying_def demoComplete_def
      demoRecord_def)

lemma quit_demo:
  "run [ClickQuit, ClickConfirmQuit] demoComplete = Inr demoQuit"
  by (simp add: handler_defs demoComplete_def demoQuit_def)

lemma timeout_demo:
  "step (TimeoutFires 1700000006400) demoQuit = Inr demoAfterTimeout"
  by (simp add: handler_defs demoLevels_def demoQuit_def demoAfterTimeout_def)

text \<open>
  C1. The claim: after a quit during LEVEL_COMPLETE the pending auto-advance callback
  never fires and never changes the phase, the level index, the grid or the stats. The
  code at a concrete run: two levels are set up, the competition is started, the
  interval fires, the first level is won (LEVEL_COMPLETE, timer pending), and the user
  quits (SETUP).
  When the timer fires, one second after the win, the phase becomes PLAYING, and the
  level index, the grid and the stats change.
\<close>

theorem auto_advance_fires_after_quit:
  "run [EditLevels demoLevels, ClickStart, ClickBegin 1700000000000,
        IntervalFires 1700000004900, ClickCell 1700000005400 4] initialApp
     = Inr demoComplete \<and>
   status demoComplete = LEVEL_COMPLETE \<and>
   run [ClickQuit, ClickConfirmQuit] demoComplete = Inr demoQuit \<and>
   status demoQuit = SETUP \<and>
   run [TimeoutFires 1700000006400] demoQuit = Inr demoAfterTimeout \<and>
   status demoAfterTimeout = PLAYING \<and>
   currentLevelIdx demoAfterTimeout \<noteq> currentLevelIdx demoQuit \<and>
   grid demoAfterTimeout \<noteq> grid demoQuit \<and>
   levelStats demoAfterTimeout \<noteq> levelStats demoQuit"
proof -
  have "run [EditLevels demoLevels, ClickStart, ClickBegin 1700000000000,
        IntervalFires 1700000004900, ClickCell 1700000005400 4] initialApp
          = Inr demoComplete"
    by (simp add: handler_defs toggle_demo initialApp_def demoLevels_def demoComplete_def
        demoRecord_def)
  moreover have "run [TimeoutFires 1700000006400] demoQuit = Inr demoAfterTimeout"
    by (simp add: timeout_demo)
  moreover have "status demoComplete = LEVEL_COMPLETE" "status demoQuit = SETUP"
    "status demoAfterTimeout = PLAYING"
    "currentLevelIdx demoAfterTimeout \<noteq> currentLevelIdx demoQuit"
    "grid demoAfterTimeout \<noteq> grid demoQuit"
    "levelStats demoAfterTimeout \<noteq> levelStats demoQuit"
    by (simp_all add: demoComplete_def demoQuit_def demoAfterTimeout_def)
  ultimately show ?thesis
    using quit_demo by (intro conjI)
qed

section \<open>Properties of the level repository\<close>

subsection \<open>Rendered numbers and generated identifiers\<close>

lemma ten_cases:
  "d < (10::nat) \<Longrightarrow>
     d = 0 \<or> d = Suc 0 \<or> d = 2 \<or> d = 3 \<or> d = 4 \<or> d = 5 \<or> d = 6 \<or> d = 7 \<or> d = 8 \<or> d = 9"
  by arith

lemma digitChar_props:
  assumes "d < 10"
  shows "digitValue (digitChar d) = d \<and> digitChar d \<noteq> CHR ''-''"
  using ten_cases [OF assms] by (elim disjE; simp add: digitChar_def digitValue_def)

lemma decimalValue_snoc:
  "decimalValue (s @ [c]) = 10 * decimalValue s + digitValue c"
  by (simp add: decimalValue_def)

lemma decimalValue_decimal: "decimalValue (decimal n) = n"
proof (induction n rule: decimal.induct)
  case (1 n)
  show ?case
  proof (cases "n < 10")
    case True
    then show ?thesis
      using digitChar_props [of n] by (simp add: decimal.simps [of n] decimalValue_def)
  next
    case False
    with 1 have "decimalValue (decimal (n div 10)) = n div 10" by simp
    moreover have "digitValue (digitChar (n mod 10)) = n mod 10"
      using digitChar_props [of "n mod 10"] by simp
    ultimately show ?thesis
      using False by (simp add: decimal.simps [of n] decimalValue_snoc)
  qed
qed

lemma decimal_inj: "decimal n = decimal m \<Longrightarrow> n = m"
  by (metis decimalValue_decimal)

lemma decimal_no_dash: "CHR ''-'' \<notin> set (decimal n)"
proof (induction n rule: decimal.induct)
  case (1 n)
  show ?case
  proof (cases "n < 10")
    case True
    then show ?thesis
      using digitChar_props [of n] by (auto simp: decimal.simps [of n])
  next
    case False
    with 1 have "CHR ''-'' \<notin> set (decimal (n div 10))" by simp
    moreover have "digitChar (n mod 10) \<noteq> CHR ''-''"
      using digitChar_props [of "n mod 10"] by simp
    ultimately show ?thesis
      using False by (auto simp: decimal.simps [of n])
  qed
qed

lemma takeWhile_until:
  "c \<notin> set a \<Longrightarrow> takeWhile (\<lambda>x. x \<noteq> c) (a @ c # rest) = a"
  by (induction a) auto

lemma split_at_dash:
  assumes "a @ CHR ''-'' # x = b @ CHR ''-'' # y"
    and "CHR ''-'' \<notin> set a" and "CHR ''-'' \<notin> set b"
  shows "a = b \<and> x = y"
proof -
  have "takeWhile (\<lambda>c. c \<noteq> CHR ''-'') (a @ CHR ''-'' # x) = a"
    using assms(2) by (rule takeWhile_until)
  moreover have "takeWhile (\<lambda>c. c \<noteq> CHR ''-'') (b @ CHR ''-'' # y) = b"
    using assms(3) by (rule takeWhile_until)
  ultimately have "a = b" using assms(1) by simp
  with assms(1) show ?thesis by simp
qed

lemma importId_inj:
  assumes "importId t i r = importId t' j r'"
  shows "t = t' \<and> i = j \<and> r = r'"
proof -
  from assms have "decimal t @ CHR ''-'' # (decimal i @ CHR ''-'' # r) =
      decimal t' @ CHR ''-'' # (decimal j @ CHR ''-'' # r')"
    by (simp add: importId_def)
  from split_at_dash [OF this decimal_no_dash decimal_no_dash]
  have t: "decimal t = decimal t'"
    and rest: "decimal i @ CHR ''-'' # r = decimal j @ CHR ''-'' # r'"
    by simp_all
  from split_at_dash [OF rest decimal_no_dash decimal_no_dash]
  have "decimal i = decimal j" and "r = r'" by simp_all
  with t show ?thesis by (simp add: decimal_inj)
qed

subsection \<open>Validation and the filter\<close>

lemma validLevel_shape:
  assumes "l \<noteq> JNull" and "l \<noteq> JUndefined"
  shows "validLevel l = Inr (hasNineCells l)"
proof -
  have "truthy v \<and> isArray v \<and> (case v of JArr cells \<Rightarrow> length cells = TOTAL_CELLS | _ \<Rightarrow> False)
          \<longleftrightarrow> (case v of JArr cells \<Rightarrow> length cells = 9 | _ \<Rightarrow> False)" for v
    by (cases v) (simp_all add: truthy_def isArray_def TOTAL_CELLS_def GRID_SIZE_def)
  with assms show ?thesis
    by (cases l) (simp_all add: validLevel_def hasNineCells_def)
qed

lemma validLevel_null: "validLevel JNull = Inl TypeError" "validLevel JUndefined = Inl TypeError"
  by (simp_all add: validLevel_def)

lemma filterValid_without_null:
  assumes "JNull \<notin> set elems" and "JUndefined \<notin> set elems"
  shows "filterValid elems = Inr (filter hasNineCells elems)"
  using assms
proof (induction elems)
  case Nil
  show ?case by simp
next
  case (Cons l ls)
  then have "validLevel l = Inr (hasNineCells l)"
    by (intro validLevel_shape) auto
  with Cons show ?case by simp
qed

lemma filterValid_with_null:
  assumes "JNull \<in> set elems \<or> JUndefined \<in> set elems"
  shows "filterValid elems = Inl TypeError"
  using assms
proof (induction elems)
  case Nil
  then show ?case by simp
next
  case (Cons l ls)
  show ?case
  proof (cases "l = JNull \<or> l = JUndefined")
    case True
    then show ?thesis by (auto simp: validLevel_null)
  next
    case False
    with Cons.prems have "JNull \<in> set ls \<or> JUndefined \<in> set ls" by auto
    with Cons.IH have "filterValid ls = Inl TypeError" by simp
    moreover from False have "validLevel l = Inr (hasNineCells l)"
      by (intro validLevel_shape) auto
    ultimately show ?thesis by simp
  qed
qed

lemma filterValid_Inr:
  assumes "filterValid elems = Inr vs"
  shows "vs = filter hasNineCells elems \<and> JNull \<notin> set elems \<and> JUndefined \<notin> set elems"
proof -
  have no: "JNull \<notin> set elems \<and> JUndefined \<notin> set elems"
    using assms filterValid_with_null [of elems] by auto
  with filterValid_without_null [of elems] assms show ?thesis by simp
qed

subsection \<open>The import as a whole\<close>

text \<open>Whatever the failure, the panel (and so the level list) is left as it was.\<close>

lemma import_failure_leaves_panel:
  assumes "fst (parseAndLoadLevels now random parsed p) = ImportFailed why"
  shows "snd (parseAndLoadLevels now random parsed p) = p"
proof (cases parsed)
  case None
  then show ?thesis by (simp add: parseAndLoadLevels_def)
next
  case (Some v)
  obtain elems where "(if \<not> isArray v \<and> typeofObject v then JArr [v] else v) = JArr elems
      \<or> (\<forall>es. (if \<not> isArray v \<and> typeofObject v then JArr [v] else v) \<noteq> JArr es)"
    by blast
  then show ?thesis
  proof
    assume arr: "(if \<not> isArray v \<and> typeofObject v then JArr [v] else v) = JArr elems"
    show ?thesis
      using assms unfolding Some parseAndLoadLevels_def option.case arr jsval.case
      by (cases "filterValid elems") (simp_all add: Let_def split: if_splits)
  next
    assume "\<forall>es. (if \<not> isArray v \<and> typeofObject v then JArr [v] else v) \<noteq> JArr es"
    then show ?thesis
      unfolding Some parseAndLoadLevels_def option.case
      by (cases "if \<not> isArray v \<and> typeofObject v then JArr [v] else v") simp_all
  qed
qed

lemma import_array:
  "parseAndLoadLevels now random (Some (JArr elems)) p =
     (case filterValid elems of
        Inl err \<Rightarrow> (ImportFailed (Thrown err), p)
      | Inr vs \<Rightarrow>
          if vs = [] then (ImportFailed NoValidLevels, p)
          else (ImportSucceeded (length vs),
                p\<lparr>levels' := levels' p @ map (\<lambda>(idx, l). cleanLevel now random idx l) (enumerate 0 vs),
                  jsonInput := []\<rparr>))"
  by (simp add: parseAndLoadLevels_def isArray_def Let_def split: sum.splits)

lemma import_wraps_object:
  "parseAndLoadLevels now random (Some (JObj props)) p =
     parseAndLoadLevels now random (Some (JArr [JObj props])) p"
  by (simp add: parseAndLoadLevels_def isArray_def typeofObject_def)

text \<open>
  Without \<^verbatim>\<open>null\<close> elements the batch behaves as the specification says: with no valid
  element the import fails with \<open>NoValidLevels\<close>; with some, the invalid ones are dropped
  and the import succeeds.
\<close>

lemma no_valid_levels:
  assumes "JNull \<notin> set elems" and "JUndefined \<notin> set elems" and "filter hasNineCells elems = []"
  shows "parseAndLoadLevels now random (Some (JArr elems)) p = (ImportFailed NoValidLevels, p)"
  using assms by (simp add: import_array filterValid_without_null)

lemma invalid_elements_dropped:
  assumes "JNull \<notin> set elems" and "JUndefined \<notin> set elems" and "filter hasNineCells elems \<noteq> []"
  shows "fst (parseAndLoadLevels now random (Some (JArr elems)) p) =
           ImportSucceeded (length (filter hasNineCells elems))"
  using assms by (simp add: import_array filterValid_without_null)

lemma cleaned_ids:
  "map id' (map (\<lambda>(idx, l). cleanLevel now random idx l) (enumerate 0 vs)) =
     map (\<lambda>idx. importId (now idx) idx (random idx)) [0..<length vs]"
  by (rule nth_equalityI) (simp_all add: cleanLevel_def nth_enumerate_eq)

lemma importId_distinct:
  "distinct (map (\<lambda>idx. importId (now idx) idx (random idx)) [0..<n])"
  by (auto simp: distinct_map inj_on_def dest: importId_inj)

subsection \<open>Validation of one candidate\<close>

text \<open>
  What the filter and the map do with one candidate other than \<^verbatim>\<open>null\<close>. The filter
  keeps it iff its \<^verbatim>\<open>initialState\<close> is an array of exactly nine elements; the elements
  are not inspected. For the level built from it at index \<open>idx\<close>: the name is the
  generated label when the candidate's name is absent or the empty string, and the
  candidate's own name when that is a non-empty string; the id is the generated one, in
  which nothing of the candidate occurs; the initial state is the candidate's.
\<close>

lemma validLevel_checks_shape_only:
  assumes "l \<noteq> JNull" and "l \<noteq> JUndefined"
  shows "validLevel l = Inr (hasNineCells l) \<and>
         (getProp l ''name'' = JUndefined \<or> getProp l ''name'' = JStr [] \<longrightarrow>
            name (cleanLevel now random idx l) = JStr (importLabel idx)) \<and>
         (s \<noteq> [] \<and> getProp l ''name'' = JStr s \<longrightarrow>
            name (cleanLevel now random idx l) = JStr s) \<and>
         id' (cleanLevel now random idx l) = importId (now idx) idx (random idx) \<and>
         initialState (cleanLevel now random idx l) = getProp l ''initialState''"
  using validLevel_shape [OF assms] by (auto simp: cleanLevel_def truthy_def)

lemma decimal_digit: "n < 10 \<Longrightarrow> decimal n = [digitChar n]"
  by (simp add: decimal.simps)

lemma decimal_step: "10 \<le> n \<Longrightarrow> decimal n = decimal (n div 10) @ [digitChar (n mod 10)]"
  by (simp add: decimal.simps [of n])

lemma decimal_examples:
  "decimal 0 = ''0''" "decimal (Suc 0) = ''1''" "decimal 2 = ''2''"
  "decimal 1700000000000 = ''1700000000000''"
  by (simp_all add: decimal_digit decimal_step digitChar_def)

lemma demo_ids:
  "importId (demoClock 0) 0 (demoRandom 0) = ''import-1700000000000-0-i''"
  "importId (demoClock (Suc 0)) (Suc 0) (demoRandom (Suc 0)) = ''import-1700000000000-1-i''"
  by (simp_all add: importId_def demoClock_def demoRandom_def decimal_examples)

lemma demo_labels:
  "importLabel 0 = [CHR 0xE5, CHR 0xAF, CHR 0xBC, CHR 0xE5, CHR 0x85, CHR 0xA5,
                    CHR 0xE5, CHR 0x85, CHR 0xB3, CHR 0xE5, CHR 0x8D, CHR 0xA1, CHR 0x20] @ ''1''"
  by (simp add: importLabel_def decimal_examples)

lemma demo_docs:
  "hasNineCells validDoc" "\<not> hasNineCells shortDoc" "hasNineCells numbersDoc"
  "\<not> specAccepts numbersDoc" "specAccepts validDoc"
  "validDoc \<noteq> JNull" "validDoc \<noteq> JUndefined" "shortDoc \<noteq> JNull" "shortDoc \<noteq> JUndefined"
  "numbersDoc \<noteq> JNull" "numbersDoc \<noteq> JUndefined"
  "getProp validDoc ''name'' = JUndefined" "getProp numbersDoc ''name'' = JStr ''Numbers''"
  by (simp_all add: hasNineCells_def specAccepts_def nineBooleans_def validDoc_def shortDoc_def
      numbersDoc_def getProp_def isBoolean_def)

lemma validLevel_checks_shape_only_example:
  "validDoc \<noteq> JNull \<and> validDoc \<noteq> JUndefined \<and>
   validLevel validDoc = Inr True \<and>
   validLevel shortDoc = Inr False \<and>
   getProp validDoc ''name'' = JUndefined \<and>
   name (cleanLevel demoClock demoRandom 0 validDoc) = JStr (importLabel 0) \<and>
   name (cleanLevel demoClock demoRandom 0 numbersDoc) = JStr ''Numbers'' \<and>
   getProp validDoc ''id'' = JStr ''mine'' \<and>
   id' (cleanLevel demoClock demoRandom 0 validDoc) = ''import-1700000000000-0-i''"
proof -
  have "getProp validDoc ''id'' = JStr ''mine''"
    by (simp add: validDoc_def getProp_def)
  with validLevel_checks_shape_only
         [where l = validDoc and s = "''Numbers''" and now = demoClock and random = demoRandom
            and idx = 0]
    validLevel_checks_shape_only
         [where l = shortDoc and s = "''Numbers''" and now = demoClock and random = demoRandom
            and idx = 0]
    validLevel_checks_shape_only
         [where l = numbersDoc and s = "''Numbers''" and now = demoClock and random = demoRandom
            and idx = 0]
  show ?thesis
    by (simp add: demo_docs demo_ids)
qed

text \<open>
  The sibling path: a level added from the visual editor always holds nine booleans when
  the editor's grid has nine cells, as the declared type of \<^verbatim>\<open>initialState\<close> says.
\<close>

lemma editor_level_is_boolean:
  assumes "length editorGrid = 9"
  shows "nineBooleans (initialState (last (levels' (addLevelFromEditor now editorGrid p))))"
  using assms by (simp add: addLevelFromEditor_def nineBooleans_def list_all_iff isBoolean_def)

text \<open>
  C4. The claim: a candidate is accepted iff its \<^verbatim>\<open>initialState\<close> is a sequence of exactly
  nine booleans. The code at the document
  \<^verbatim>\<open>{"name": "Numbers", "initialState": [1, 0, 1, 0, 1, 0, 1, 0, 1]}\<close>: the filter keeps
  it, although it is not a sequence of nine booleans, the import succeeds, and the level
  list then holds a level whose initial state is that array of numbers, not nine
  booleans.
\<close>

theorem validLevel_accepts_non_booleans:
  "validLevel numbersDoc = Inr True \<and> \<not> specAccepts numbersDoc \<and>
   fst (parseAndLoadLevels demoClock demoRandom (Some numbersDoc) emptyPanel) = ImportSucceeded 1 \<and>
   parseAndLoadLevels demoClock demoRandom (Some numbersDoc) emptyPanel =
     (ImportSucceeded 1, panelWithNumbers) \<and>
   \<not> nineBooleans (initialState (last (levels' panelWithNumbers)))"
proof -
  have v: "validLevel numbersDoc = Inr True"
    by (simp add: validLevel_shape demo_docs)
  have c: "cleanLevel demoClock demoRandom 0 numbersDoc =
      \<lparr>id' = ''import-1700000000000-0-i'', name = JStr ''Numbers'',
       initialState =
         JArr [JNum 1, JNum 0, JNum 1, JNum 0, JNum 1, JNum 0, JNum 1, JNum 0, JNum 1]\<rparr>"
  proof -
    have "getProp numbersDoc ''initialState'' =
        JArr [JNum 1, JNum 0, JNum 1, JNum 0, JNum 1, JNum 0, JNum 1, JNum 0, JNum 1]"
      by (simp add: numbersDoc_def getProp_def)
    then show ?thesis
      by (simp add: cleanLevel_def demo_ids demo_docs truthy_def)
  qed
  have "parseAndLoadLevels demoClock demoRandom (Some numbersDoc) emptyPanel =
      parseAndLoadLevels demoClock demoRandom (Some (JArr [numbersDoc])) emptyPanel"
    unfolding numbersDoc_def by (rule import_wraps_object)
  then have all: "parseAndLoadLevels demoClock demoRandom (Some numbersDoc) emptyPanel =
      (ImportSucceeded 1, panelWithNumbers)"
    by (simp add: import_array v c emptyPanel_def panelWithNumbers_def)
  have "\<not> nineBooleans (initialState (last (levels' panelWithNumbers)))"
    by (simp add: panelWithNumbers_def nineBooleans_def isBoolean_def)
  with v all show ?thesis by (simp add: demo_docs)
qed

subsection \<open>A batch with a null element\<close>

text \<open>
  C5. The claim: an invalid element in a batch that also has a valid one is dropped
  without aborting the import, and a batch with no valid element fails with
  \<open>NoValidLevels\<close>. The code at the batch \<^verbatim>\<open>[null, validDoc]\<close> (and at
  \<^verbatim>\<open>[validDoc, null]\<close>): the filter's callback raises a \<^verbatim>\<open>TypeError\<close> on \<^verbatim>\<open>null\<close>, the
  whole import is aborted and the valid level is not imported. At \<^verbatim>\<open>[null]\<close> the failure
  is the same \<^verbatim>\<open>TypeError\<close>, not \<open>NoValidLevels\<close>. The panel is unchanged in each case.
\<close>

theorem null_element_aborts_import:
  "validLevel validDoc = Inr True \<and>
   parseAndLoadLevels now random (Some (JArr [JNull, validDoc])) p =
     (ImportFailed (Thrown TypeError), p) \<and>
   parseAndLoadLevels now random (Some (JArr [validDoc, JNull])) p =
     (ImportFailed (Thrown TypeError), p) \<and>
   parseAndLoadLevels now random (Some (JArr [JNull])) p =
     (ImportFailed (Thrown TypeError), p)"
  by (simp add: import_array validLevel_null validLevel_shape demo_docs)

subsection \<open>A successful import\<close>

lemma cleaned_states:
  "map initialState (map (\<lambda>(idx, l). cleanLevel now random idx l) (enumerate 0 vs)) =
     map (\<lambda>l. getProp l ''initialState'') vs"
  by (rule nth_equalityI) (simp_all add: cleanLevel_def nth_enumerate_eq)

text \<open>
  An id of the list that equals a generated import id was itself made by an import, with
  the same clock reading, index and suffix: the editor's ids begin differently, and the
  import's template can be read back.
\<close>

lemma renderId_importId:
  assumes "renderId origin = importId t i r"
  shows "origin = FromImport t i r"
proof (cases origin)
  case (FromEditor u)
  with assms show ?thesis by (simp add: editorId_def importId_def)
next
  case (FromImport u j q)
  with assms importId_inj [of u j q t i r] show ?thesis by simp
qed

lemma unusedReading_fresh:
  assumes "unusedReading now random n origins" and "idx < n"
  shows "importId (now idx) idx (random idx) \<notin> set (map renderId origins)"
proof
  assume "importId (now idx) idx (random idx) \<in> set (map renderId origins)"
  then obtain origin where o: "origin \<in> set origins"
    and r: "renderId origin = importId (now idx) idx (random idx)"
    by auto
  from renderId_importId [OF r] have "origin = FromImport (now idx) idx (random idx)" .
  moreover from assms o have "origin \<noteq> FromImport (now idx) idx (random idx)"
    by (auto simp: unusedReading_def list_all_iff)
  ultimately show False by simp
qed

text \<open>
  C6. When the import of a collection succeeds with \<open>n\<close> levels, these are the valid
  elements of the input in input order, appended to the end of the list, whose earlier
  entries are unchanged; the initial states are those of the input. The id of the level
  at index \<open>idx\<close> is generated from the clock, \<open>idx\<close> and the random suffix; the ids of
  one import are pairwise distinct; and when the ids already in the list come from the
  editor or from earlier imports, none of which used the clock reading, index and suffix
  of one of the new levels, the new ids differ from all ids already in the list, so that
  a list of distinct ids stays one. A bare object is imported exactly as the collection
  holding only that object.
\<close>

theorem import_appends_generated_levels:
  assumes ok: "parseAndLoadLevels now random (Some (JArr elems)) p = (ImportSucceeded n, p')"
  shows "levels' p' =
           levels' p @ map (\<lambda>(idx, l). cleanLevel now random idx l)
                           (enumerate 0 (filter hasNineCells elems)) \<and>
         n = length (filter hasNineCells elems) \<and> 0 < n \<and>
         take (length (levels' p)) (levels' p') = levels' p \<and>
         map initialState (drop (length (levels' p)) (levels' p')) =
           map (\<lambda>l. getProp l ''initialState'') (filter hasNineCells elems) \<and>
         map id' (drop (length (levels' p)) (levels' p')) =
           map (\<lambda>idx. importId (now idx) idx (random idx)) [0..<n] \<and>
         distinct (map id' (drop (length (levels' p)) (levels' p'))) \<and>
         (map id' (levels' p) = map renderId origins \<and> unusedReading now random n origins \<longrightarrow>
            set (map id' (drop (length (levels' p)) (levels' p'))) \<inter> set (map id' (levels' p)) = {} \<and>
            (distinct (map id' (levels' p)) \<longrightarrow> distinct (map id' (levels' p')))) \<and>
         parseAndLoadLevels now random (Some (JObj props)) q =
           parseAndLoadLevels now random (Some (JArr [JObj props])) q"
proof -
  from ok obtain vs where vs: "filterValid elems = Inr vs"
    by (cases "filterValid elems") (simp_all add: import_array)
  with ok have ne: "vs \<noteq> []" and n: "n = length vs"
    and p': "p' = p\<lparr>levels' := levels' p @ map (\<lambda>(idx, l). cleanLevel now random idx l)
                                              (enumerate 0 vs), jsonInput := []\<rparr>"
    by (auto simp: import_array split: if_splits)
  from filterValid_Inr [OF vs] have f: "vs = filter hasNineCells elems" by simp
  have new: "drop (length (levels' p)) (levels' p') =
      map (\<lambda>(idx, l). cleanLevel now random idx l) (enumerate 0 vs)"
    by (simp add: p')
  have ids: "map id' (drop (length (levels' p)) (levels' p')) =
      map (\<lambda>idx. importId (now idx) idx (random idx)) [0..<n]"
    unfolding new n by (rule cleaned_ids)
  have dist: "distinct (map id' (drop (length (levels' p)) (levels' p')))"
    unfolding ids by (rule importId_distinct)
  have states: "map initialState (drop (length (levels' p)) (levels' p')) =
      map (\<lambda>l. getProp l ''initialState'') (filter hasNineCells elems)"
    unfolding new f [symmetric] by (rule cleaned_states)
  have app: "levels' p' = levels' p @ map (\<lambda>(idx, l). cleanLevel now random idx l)
                           (enumerate 0 (filter hasNineCells elems))"
    by (simp add: p' f)
  have old: "take (length (levels' p)) (levels' p') = levels' p"
    by (simp add: p')
  from ne n f have cnt: "n = length (filter hasNineCells elems)" "0 < n"
    by auto
  have split: "map id' (levels' p') =
      map id' (levels' p) @ map id' (drop (length (levels' p)) (levels' p'))"
    by (simp add: p')
  have fresh: "map id' (levels' p) = map renderId origins \<and> unusedReading now random n origins \<longrightarrow>
      set (map id' (drop (length (levels' p)) (levels' p'))) \<inter> set (map id' (levels' p)) = {} \<and>
      (distinct (map id' (levels' p)) \<longrightarrow> distinct (map id' (levels' p')))"
  proof (intro impI, elim conjE)
    assume made: "map id' (levels' p) = map renderId origins"
      and unused: "unusedReading now random n origins"
    have disj: "set (map id' (drop (length (levels' p)) (levels' p'))) \<inter>
        set (map id' (levels' p)) = {}"
    proof -
      have "x \<notin> set (map renderId origins)"
        if "x \<in> set (map (\<lambda>idx. importId (now idx) idx (random idx)) [0..<n])" for x
      proof -
        from that obtain idx where "idx < n" and "x = importId (now idx) idx (random idx)"
          by auto
        with unusedReading_fresh [OF unused] show ?thesis by simp
      qed
      then show ?thesis unfolding ids made by blast
    qed
    moreover have "distinct (map id' (levels' p)) \<longrightarrow> distinct (map id' (levels' p'))"
      unfolding split using dist disj by auto
    ultimately show "set (map id' (drop (length (levels' p)) (levels' p'))) \<inter>
        set (map id' (levels' p)) = {} \<and>
        (distinct (map id' (levels' p)) \<longrightarrow> distinct (map id' (levels' p')))"
      by (intro conjI)
  qed
  from app cnt old states ids dist fresh import_wraps_object [of now random props q]
  show ?thesis by (intro conjI)
qed

lemma clean_demo:
  "cleanLevel demoClock demoRandom 0 validDoc = importedDoc"
  "cleanLevel demoClock demoRandom (Suc 0) numbersDoc = importedNumbers"
proof -
  have props: "getProp validDoc ''initialState'' =
      JArr [JBool True, JBool False, JBool True, JBool False, JBool False, JBool False,
            JBool True, JBool False, JBool True]"
    "getProp numbersDoc ''initialState'' =
      JArr [JNum 1, JNum 0, JNum 1, JNum 0, JNum 1, JNum 0, JNum 1, JNum 0, JNum 1]"
    by (simp_all add: validDoc_def numbersDoc_def getProp_def)
  show "cleanLevel demoClock demoRandom 0 validDoc = importedDoc"
    by (simp add: cleanLevel_def demo_ids demo_labels demo_docs props truthy_def importedDoc_def)
  show "cleanLevel demoClock demoRandom (Suc 0) numbersDoc = importedNumbers"
    by (simp add: cleanLevel_def demo_ids demo_docs props truthy_def importedNumbers_def)
qed

lemma batch_demo:
  "parseAndLoadLevels demoClock demoRandom (Some (JArr [validDoc, shortDoc, numbersDoc]))
     panelWithLevel = (ImportSucceeded 2, panelAfterBatch)"
proof -
  have "filterValid [validDoc, shortDoc, numbersDoc] = Inr [validDoc, numbersDoc]"
    by (simp add: validLevel_shape demo_docs)
  then show ?thesis
    by (simp add: import_array clean_demo panelWithLevel_def panelAfterBatch_def)
qed

text \<open>
  The list of the example holds the level that \<open>addLevelFromEditor\<close> makes at clock
  1699999000000 and a level imported at clock 1699999990000; the present import reads the
  clock at 1700000000000.
\<close>

lemma editor_demo:
  "levels' (addLevelFromEditor 1699999000000
              [False, False, False, False, False, False, False, False, False] emptyPanel) =
     [editorLevel]"
  by (simp add: addLevelFromEditor_def emptyPanel_def editorLevel_def editorId_def
      editorLabel_def decimal_digit decimal_step digitChar_def)

lemma origins_demo:
  "map id' (levels' panelWithLevel) = map renderId demoOrigins"
  "unusedReading demoClock demoRandom 2 demoOrigins"
  "distinct (map id' (levels' panelWithLevel))"
proof -
  have two: "[0..<2] = [0, Suc 0]"
    by (simp add: upt_conv_Cons)
  show "map id' (levels' panelWithLevel) = map renderId demoOrigins"
    by (simp add: panelWithLevel_def editorLevel_def importedEarlier_def demoOrigins_def
        editorId_def importId_def decimal_digit decimal_step digitChar_def)
  show "unusedReading demoClock demoRandom 2 demoOrigins"
    by (simp add: unusedReading_def demoOrigins_def demoClock_def two)
  show "distinct (map id' (levels' panelWithLevel))"
    by (simp add: panelWithLevel_def editorLevel_def importedEarlier_def)
qed

theorem import_appends_generated_levels_witness:
  "parseAndLoadLevels demoClock demoRandom (Some (JArr [validDoc, shortDoc, numbersDoc]))
     panelWithLevel = (ImportSucceeded 2, panelAfterBatch) \<and>
   map id' (levels' panelWithLevel) = map renderId demoOrigins \<and>
   unusedReading demoClock demoRandom 2 demoOrigins \<and>
   distinct (map id' (levels' panelWithLevel)) \<and>
   levels' panelWithLevel = [editorLevel, importedEarlier] \<and>
   levels' panelAfterBatch = [editorLevel, importedEarlier, importedDoc, importedNumbers] \<and>
   take (length (levels' panelWithLevel)) (levels' panelAfterBatch) = levels' panelWithLevel \<and>
   map id' (drop (length (levels' panelWithLevel)) (levels' panelAfterBatch)) =
     [''import-1700000000000-0-i'', ''import-1700000000000-1-i''] \<and>
   distinct (map id' (drop (length (levels' panelWithLevel)) (levels' panelAfterBatch))) \<and>
   set (map id' (drop (length (levels' panelWithLevel)) (levels' panelAfterBatch))) \<inter>
     set (map id' (levels' panelWithLevel)) = {} \<and>
   distinct (map id' (levels' panelAfterBatch)) \<and>
   map id' (levels' panelAfterBatch) =
     [''level-1699999000000'', ''import-1699999990000-0-i'',
      ''import-1700000000000-0-i'', ''import-1700000000000-1-i''] \<and>
   parseAndLoadLevels demoClock demoRandom (Some (JObj [(''id'', JStr ''mine'')])) emptyPanel =
     parseAndLoadLevels demoClock demoRandom (Some (JArr [JObj [(''id'', JStr ''mine'')]]))
       emptyPanel"
proof -
  note t = import_appends_generated_levels
             [OF batch_demo, of demoOrigins "[(''id'', JStr ''mine'')]" emptyPanel]
  from t have old:
    "take (length (levels' panelWithLevel)) (levels' panelAfterBatch) = levels' panelWithLevel"
    by (elim conjE)
  from t have dist:
    "distinct (map id' (drop (length (levels' panelWithLevel)) (levels' panelAfterBatch)))"
    by (elim conjE)
  from t have wrap:
    "parseAndLoadLevels demoClock demoRandom (Some (JObj [(''id'', JStr ''mine'')])) emptyPanel =
     parseAndLoadLevels demoClock demoRandom (Some (JArr [JObj [(''id'', JStr ''mine'')]]))
       emptyPanel"
    by (elim conjE)
  from t have fresh:
    "map id' (levels' panelWithLevel) = map renderId demoOrigins \<and>
       unusedReading demoClock demoRandom 2 demoOrigins \<longrightarrow>
     set (map id' (drop (length (levels' panelWithLevel)) (levels' panelAfterBatch))) \<inter>
       set (map id' (levels' panelWithLevel)) = {} \<and>
     (distinct (map id' (levels' panelWithLevel)) \<longrightarrow>
        distinct (map id' (levels' panelAfterBatch)))"
    by (elim conjE)
  with origins_demo have disj:
    "set (map id' (drop (length (levels' panelWithLevel)) (levels' panelAfterBatch))) \<inter>
       set (map id' (levels' panelWithLevel)) = {}"
    and all: "distinct (map id' (levels' panelAfterBatch))"
    by blast+
  have lists: "levels' panelWithLevel = [editorLevel, importedEarlier]"
    "levels' panelAfterBatch = [editorLevel, importedEarlier, importedDoc, importedNumbers]"
    "map id' (drop (length (levels' panelWithLevel)) (levels' panelAfterBatch)) =
       [''import-1700000000000-0-i'', ''import-1700000000000-1-i'']"
    "map id' (levels' panelAfterBatch) =
       [''level-1699999000000'', ''import-1699999990000-0-i'',
        ''import-1700000000000-0-i'', ''import-1700000000000-1-i'']"
    by (simp_all add: panelWithLevel_def panelAfterBatch_def editorLevel_def importedEarlier_def
        importedDoc_def importedNumbers_def)
  from batch_demo origins_demo lists(1,2) old lists(3) dist disj all lists(4) wrap
  show ?thesis
    by (intro conjI)
qed

subsection \<open>Export\<close>

text \<open>
  C10. With no levels in the list, a click on the export button changes nothing: no
  document is produced (\<open>exportData\<close> stays as it was).
\<close>

theorem export_disabled_without_levels:
  assumes "levels' p = []"
  shows "clickExport stringify p = p"
  using assms by (simp add: clickExport_def)

theorem export_disabled_without_levels_witness:
  "levels' emptyPanel = [] \<and> clickExport demoStringify emptyPanel = emptyPanel \<and>
   exportData (clickExport demoStringify emptyPanel) = None"
  using export_disabled_without_levels [of emptyPanel demoStringify]
  by (simp add: emptyPanel_def)

text \<open>
  The guard is the button's \<^verbatim>\<open>disabled\<close> attribute alone; the handler itself serialises
  whatever list it is given.
\<close>

lemma clickExport_with_levels:
  "levels' p \<noteq> [] \<Longrightarrow> exportData (clickExport stringify p) = Some (stringify (levels' p))"
  by (simp add: clickExport_def handleJsonExport_def)

lemma handleJsonExport_unguarded:
  "exportData (handleJsonExport stringify p) = Some (stringify (levels' p))"
  by (simp add: handleJsonExport_def)

end
